theory Spec2Isabelle
  imports Complex_Main "HOL-Library.Word"
begin

section \<open>The number type of the package\<close>

text \<open>
  Every quantity of package glicko is a Go \<open>float64\<close>.  The embedding keeps the special
  values of IEEE 754 that decide control flow (a comparison with NaN is false, a division
  by zero gives an infinity or NaN, \<open>math.Sqrt\<close> of a negative number and \<open>math.Log\<close>
  of a negative number give NaN) and takes every finite value as an exact real number:
  rounding, overflow, underflow and the sign of zero are not part of the model.
\<close>

datatype float64 = NaN | NInf | Fin real | PInf

fun sgnf :: "float64 \<Rightarrow> real" where
  "sgnf NaN = 0"
| "sgnf NInf = - 1"
| "sgnf PInf = 1"
| "sgnf (Fin x) = sgn x"

definition inff :: "real \<Rightarrow> float64" where
  "inff s = (if s = 0 then NaN else if 0 < s then PInf else NInf)"

instantiation float64 :: "{plus, uminus, times, divide, abs, ord}"
begin

fun plus_float64 :: "float64 \<Rightarrow> float64 \<Rightarrow> float64" where
  "plus_float64 (Fin x) (Fin y) = Fin (x + y)"
| "plus_float64 NaN _ = NaN"
| "plus_float64 _ NaN = NaN"
| "plus_float64 PInf NInf = NaN"
| "plus_float64 NInf PInf = NaN"
| "plus_float64 PInf _ = PInf"
| "plus_float64 _ PInf = PInf"
| "plus_float64 NInf _ = NInf"
| "plus_float64 _ NInf = NInf"

fun uminus_float64 :: "float64 \<Rightarrow> float64" where
  "uminus_float64 NaN = NaN"
| "uminus_float64 NInf = PInf"
| "uminus_float64 PInf = NInf"
| "uminus_float64 (Fin x) = Fin (- x)"

fun times_float64 :: "float64 \<Rightarrow> float64 \<Rightarrow> float64" where
  "times_float64 (Fin x) (Fin y) = Fin (x * y)"
| "times_float64 NaN _ = NaN"
| "times_float64 _ NaN = NaN"
| "times_float64 x y = inff (sgnf x * sgnf y)"

fun divide_float64 :: "float64 \<Rightarrow> float64 \<Rightarrow> float64" where
  "divide_float64 (Fin x) (Fin y) = (if y = 0 then inff x else Fin (x / y))"
| "divide_float64 NaN _ = NaN"
| "divide_float64 _ NaN = NaN"
| "divide_float64 (Fin x) _ = Fin 0"
| "divide_float64 PInf (Fin y) = (if y < 0 then NInf else PInf)"
| "divide_float64 NInf (Fin y) = (if y < 0 then PInf else NInf)"
| "divide_float64 _ _ = NaN"

fun abs_float64 :: "float64 \<Rightarrow> float64" where
  "abs_float64 NaN = NaN"
| "abs_float64 NInf = PInf"
| "abs_float64 PInf = PInf"
| "abs_float64 (Fin x) = Fin \<bar>x\<bar>"

fun less_float64 :: "float64 \<Rightarrow> float64 \<Rightarrow> bool" where
  "less_float64 (Fin x) (Fin y) = (x < y)"
| "less_float64 NaN _ = False"
| "less_float64 _ NaN = False"
| "less_float64 _ NInf = False"
| "less_float64 NInf _ = True"
| "less_float64 PInf _ = False"
| "less_float64 _ PInf = True"

fun less_eq_float64 :: "float64 \<Rightarrow> float64 \<Rightarrow> bool" where
  "less_eq_float64 (Fin x) (Fin y) = (x \<le> y)"
| "less_eq_float64 NaN _ = False"
| "less_eq_float64 _ NaN = False"
| "less_eq_float64 NInf _ = True"
| "less_eq_float64 _ NInf = False"
| "less_eq_float64 _ PInf = True"
| "less_eq_float64 PInf _ = False"

instance ..

end

instantiation float64 :: "{minus, inverse}"
begin

definition minus_float64 :: "float64 \<Rightarrow> float64 \<Rightarrow> float64" where
  "minus_float64 x y = x + (- y)"

definition inverse_float64 :: "float64 \<Rightarrow> float64" where
  "inverse_float64 x = Fin 1 div x"

instance ..

end

text \<open>\<open>math.Sqrt\<close>, \<open>math.Exp\<close>, \<open>math.Log\<close> and \<open>math.Abs\<close> with their special cases.\<close>

fun Sqrt :: "float64 \<Rightarrow> float64" where
  "Sqrt NaN = NaN"
| "Sqrt NInf = NaN"
| "Sqrt PInf = PInf"
| "Sqrt (Fin x) = (if x < 0 then NaN else Fin (sqrt x))"

fun Exp :: "float64 \<Rightarrow> float64" where
  "Exp NaN = NaN"
| "Exp NInf = Fin 0"
| "Exp PInf = PInf"
| "Exp (Fin x) = Fin (exp x)"

fun Log :: "float64 \<Rightarrow> float64" where
  "Log NaN = NaN"
| "Log NInf = NaN"
| "Log PInf = PInf"
| "Log (Fin x) = (if x < 0 then NaN else if x = 0 then NInf else Fin (ln x))"

definition Abs :: "float64 \<Rightarrow> float64" where
  "Abs x = \<bar>x\<bar>"

definition pow2 :: "float64 \<Rightarrow> float64" where
  "pow2 val = val * val"

section \<open>Data model\<close>

record Strength =
  Mu :: float64
  Phi :: float64
  Sigma :: float64

text \<open>An \<open>Outcome\<close> holds the enemy's mu and phi and the score of the match; the fields
  are suffixed because \<open>Strength\<close> has fields of the same names.\<close>

record Outcome =
  Mu_o :: float64
  Phi_o :: float64
  Score :: float64

record Estimator =
  Duration :: "64 word"
  MinPhi :: float64
  MaxPhi :: float64
  MinMu :: float64
  MaxMu :: float64
  MinSigma :: float64
  MaxSigma :: float64
  Tau :: float64
  Epsilon :: float64

section \<open>Outcome weighting\<close>

definition g :: "Outcome \<Rightarrow> float64" where
  "g o' = Fin 1 / Sqrt (Fin 1 + (Fin 3 * pow2 (Phi_o o') / pow2 (Fin pi)))"

definition e :: "Outcome \<Rightarrow> float64 \<Rightarrow> float64 \<Rightarrow> float64" where
  "e o' G mu = Fin 1 / (Fin 1 + Exp (- G * (mu - Mu_o o')))"

section \<open>Validation\<close>

definition Validate :: "Estimator \<Rightarrow> Strength \<Rightarrow> Strength" where
  "Validate est s =
    (let s1 = (if Mu s < MinMu est then s\<lparr>Mu := MinMu est\<rparr>
               else if Mu s > MaxMu est then s\<lparr>Mu := MaxMu est\<rparr> else s);
         s2 = (if Phi s1 < MinPhi est then s1\<lparr>Phi := MinPhi est\<rparr>
               else if Phi s1 > MaxPhi est then s1\<lparr>Phi := MaxPhi est\<rparr> else s1);
         s3 = (if Sigma s2 < MinSigma est then s2\<lparr>Sigma := MinSigma est\<rparr>
               else if Sigma s2 > MaxSigma est then s2\<lparr>Sigma := MaxSigma est\<rparr> else s2)
     in s3)"

section \<open>The volatility solver\<close>

definition f :: "Estimator \<Rightarrow> float64 \<Rightarrow> float64 \<Rightarrow> float64 \<Rightarrow> float64 \<Rightarrow> float64 \<Rightarrow> float64" where
  "f est delta phi v a x =
    (let ex = Exp x;
         tmp = pow2 phi + v + ex
     in ex * (pow2 delta - tmp) / (Fin 2 * pow2 tmp) - (x - a) / pow2 (Tau est))"

text \<open>
  The two loops of \<open>sigmaPrime\<close>.  Both call \<open>e.f(delta, s.Phi, v, a, x)\<close> with the
  same first four arguments in every iteration; the loops take that function of \<open>x\<close> as
  \<open>F\<close>.  A loop that does not end has the value \<open>None\<close>.

  The bracket expansion, \<open>for k := 1.0; ; k++\<close>:
\<close>

partial_function (option) sigmaPrime_bracket ::
  "(float64 \<Rightarrow> float64) \<Rightarrow> float64 \<Rightarrow> float64 \<Rightarrow> float64 \<Rightarrow> float64 option" where
  "sigmaPrime_bracket F a tau k =
    (if F (a - k * tau) > Fin 0 then Some (a - k * tau)
     else sigmaPrime_bracket F a tau (k + Fin 1))"

text \<open>The refinement on the variables \<open>(A, fA, B, fB)\<close>,
  \<open>for math.Abs(B-A) > e.Epsilon\<close>:\<close>

partial_function (option) sigmaPrime_secant ::
  "(float64 \<Rightarrow> float64) \<Rightarrow> float64 \<Rightarrow> float64 \<times> float64 \<times> float64 \<times> float64 \<Rightarrow>
   (float64 \<times> float64 \<times> float64 \<times> float64) option" where
  "sigmaPrime_secant F eps st =
    (case st of (A, fA, B, fB) \<Rightarrow>
      if Abs (B - A) > eps then
        (let C = A + (A - B) * fA / (fB - fA);
             fC = F C
         in if fC * fB \<le> Fin 0 then sigmaPrime_secant F eps (B, fB, C, fC)
            else sigmaPrime_secant F eps (A, fA / Fin 2, C, fC))
      else Some (A, fA, B, fB))"

definition sigmaPrime :: "Estimator \<Rightarrow> Strength \<Rightarrow> float64 \<Rightarrow> float64 \<Rightarrow> float64 option" where
  "sigmaPrime est s delta v =
    (let a = Log (pow2 (Sigma s)) in
     case (if pow2 delta > pow2 (Phi s) + v
           then Some (Log (pow2 delta - pow2 (Phi s) - v))
           else sigmaPrime_bracket (f est delta (Phi s) v a) a (Tau est) (Fin 1)) of
       None \<Rightarrow> None
     | Some B \<Rightarrow>
        (case sigmaPrime_secant (f est delta (Phi s) v a) (Epsilon est)
                (a, f est delta (Phi s) v a a, B, f est delta (Phi s) v a B) of
           None \<Rightarrow> None
         | Some (A, fA, B', fB') \<Rightarrow> Some (Exp (A / Fin 2))))"

section \<open>Estimate\<close>

text \<open>\<open>Estimate\<close> updates the strength in place; the model returns the updated record,
  and \<open>None\<close> when a loop of \<open>sigmaPrime\<close> does not end.\<close>

definition Estimate :: "Estimator \<Rightarrow> Strength \<Rightarrow> Outcome \<Rightarrow> float64 \<Rightarrow> Strength option" where
  "Estimate est s o' periodFraction =
    (let G = g o';
         E = e o' G (Mu s);
         V = Fin 1 / (pow2 G * E * (Fin 1 - E));
         Delta = V * G * (Score o' - E)
     in case sigmaPrime est s Delta V of
          None \<Rightarrow> None
        | Some sg \<Rightarrow>
           (let s1 = s\<lparr>Sigma := sg\<rparr>;
                phiStar = Sqrt (pow2 (Phi s1) + pow2 (Sigma s1) * periodFraction);
                s2 = s1\<lparr>Phi := Fin 1 / Sqrt (Fin 1 / pow2 phiStar + Fin 1 / V)\<rparr>;
                s3 = s2\<lparr>Mu := Mu s2 + pow2 (Phi s2) * (Delta / V)\<rparr>
            in Some (Validate est s3)))"

section \<open>Scale conversion and the recommended configuration\<close>

record Converter =
  Rating :: float64
  Deviation :: float64
  Factor :: float64

definition Rating2Mu :: "Converter \<Rightarrow> float64 \<Rightarrow> float64" where
  "Rating2Mu c rating = (rating - Rating c) / Factor c"

definition Deviation2Phi :: "Converter \<Rightarrow> float64 \<Rightarrow> float64" where
  "Deviation2Phi c deviation = deviation / Factor c"

definition Mu2Rating :: "Converter \<Rightarrow> float64 \<Rightarrow> float64" where
  "Mu2Rating c mu = mu * Factor c + Rating c"

definition Phi2Deviation :: "Converter \<Rightarrow> float64 \<Rightarrow> float64" where
  "Phi2Deviation c phi = phi * Factor c"

text \<open>The converter and the estimator of the package's usage example, built from the
  recommended constants.\<close>

definition DefaultConverter :: Converter where
  "DefaultConverter = \<lparr>Rating = Fin 1500, Deviation = Fin 350, Factor = Fin (1737178 / 10000)\<rparr>"

definition DefaultEstimator :: Estimator where
  "DefaultEstimator =
    \<lparr>Duration = 0,
     MinPhi = Deviation2Phi DefaultConverter (Fin 30),
     MaxPhi = Deviation2Phi DefaultConverter (Fin 350),
     MinMu = Rating2Mu DefaultConverter (Fin 10),
     MaxMu = Rating2Mu DefaultConverter (Fin 5000),
     MinSigma = Fin (4 / 100), MaxSigma = Fin (8 / 100),
     Tau = Fin (75 / 100), Epsilon = Fin (1 / 1000000)\<rparr>"

section \<open>The earlier revision that takes the outcomes of a rating period\<close>

text \<open>
  An earlier revision of the package estimates from a slice of outcomes, each carrying its
  precomputed \<open>g\<close> and \<open>e\<close>, and has the branch for a period without matches.  Its names
  carry the suffix \<open>_b\<close>; its two solver loops are the ones above.
\<close>

record Outcome_b =
  mu_b :: float64
  phi_b :: float64
  g_b :: float64
  e_b :: float64
  score_b :: float64

definition NewOutcome_b :: "float64 \<Rightarrow> float64 \<Rightarrow> float64 \<Rightarrow> float64 \<Rightarrow> Outcome_b" where
  "NewOutcome_b mu enemyMu enemyPhi score =
    (let G = Fin 1 / Sqrt (Fin 1 + (Fin 3 * pow2 enemyPhi / pow2 (Fin pi)));
         E = Fin 1 / (Fin 1 + Exp (- G * (mu - enemyMu)))
     in \<lparr>mu_b = enemyMu, phi_b = enemyPhi, g_b = G, e_b = E, score_b = score\<rparr>)"

text \<open>The parameters of this revision's \<open>f\<close> are declared in the order
  \<open>(phi, v, delta, a, x)\<close>.\<close>

definition f_b :: "Estimator \<Rightarrow> float64 \<Rightarrow> float64 \<Rightarrow> float64 \<Rightarrow> float64 \<Rightarrow> float64 \<Rightarrow> float64" where
  "f_b est phi v delta a x =
    (let ex = Exp x;
         tmp = pow2 phi - v - ex
     in ex * (pow2 delta - tmp) / (Fin 2 * pow2 tmp) - (x - a) / pow2 (Tau est))"

definition sigmaPrime_b :: "Estimator \<Rightarrow> Strength \<Rightarrow> float64 \<Rightarrow> float64 \<Rightarrow> float64 option" where
  "sigmaPrime_b est s delta v =
    (let a = Log (pow2 (Sigma s)) in
     case (if pow2 delta > pow2 (Phi s) + v
           then Some (Log (pow2 delta - pow2 (Phi s) - v))
           else sigmaPrime_bracket (f_b est delta (Phi s) v a) a (Tau est) (Fin 1)) of
       None \<Rightarrow> None
     | Some B \<Rightarrow>
        (case sigmaPrime_secant (f_b est delta (Phi s) v a) (Epsilon est)
                (a, f_b est delta (Phi s) v a a, B, f_b est delta (Phi s) v a B) of
           None \<Rightarrow> None
         | Some (A, fA, B', fB') \<Rightarrow> Some (Exp (a / Fin 2))))"

definition Estimate_b :: "Estimator \<Rightarrow> Strength \<Rightarrow> Outcome_b list \<Rightarrow> Strength option" where
  "Estimate_b est s outcomes =
    (if length outcomes = 0 then Some (s\<lparr>Phi := Sqrt (pow2 (Phi s) + pow2 (Sigma s))\<rparr>)
     else
      (let v0 = foldl (\<lambda>acc o'. acc + pow2 (g_b o') * e_b o' * (Fin 1 - e_b o')) (Fin 0) outcomes;
           v = Fin 1 / v0;
           tmp = foldl (\<lambda>acc o'. acc + g_b o' * (score_b o' - e_b o')) (Fin 0) outcomes;
           delta = tmp * v
       in case sigmaPrime_b est s delta v of
            None \<Rightarrow> None
          | Some sg \<Rightarrow>
             (let s1 = s\<lparr>Sigma := sg\<rparr>;
                  phiStar = Sqrt (pow2 (Phi s1) + pow2 (Sigma s1));
                  s2 = s1\<lparr>Phi := Fin 1 / Sqrt (Fin 1 / pow2 phiStar + Fin 1 / v)\<rparr>;
                  s3 = s2\<lparr>Mu := Mu s2 + pow2 (Phi s2) * tmp\<rparr>
              in Some s3)))"

section \<open>The first revision: \<open>EvaluatePlayer\<close>\<close>

text \<open>
  The first revision of the package evaluates a player on the rating scale from the
  outcomes of one rating period, with the system constants fixed.  Names that the later
  revisions use again carry the suffix \<open>_0\<close>; an outcome has the fields of \<open>Outcome_b\<close>.
\<close>

record Evaluation =
  Rating_0 :: float64
  Deviation_0 :: float64
  Volatility_0 :: float64

definition tau_0 :: float64 where
  "tau_0 = Fin (5 / 10)"

definition scale_0 :: float64 where
  "scale_0 = Fin (1737178 / 10000)"

definition epsilon_0 :: float64 where
  "epsilon_0 = Fin (1 / 1000000)"

definition calcPhi :: "float64 \<Rightarrow> float64" where
  "calcPhi deviation = deviation / scale_0"

definition calcMu :: "float64 \<Rightarrow> float64" where
  "calcMu rating = (rating - Fin 1500) / scale_0"

definition calcG :: "float64 \<Rightarrow> float64" where
  "calcG phi = Fin 1 / Sqrt (Fin 1 + (Fin 3 * pow2 phi / pow2 (Fin pi)))"

definition calcE :: "float64 \<Rightarrow> float64 \<Rightarrow> float64 \<Rightarrow> float64" where
  "calcE mu eMu G = Fin 1 / (Fin 1 + Exp (- G * (mu - eMu)))"

definition NewOutcome_0 :: "float64 \<Rightarrow> float64 \<Rightarrow> float64 \<Rightarrow> float64 \<Rightarrow> Outcome_b" where
  "NewOutcome_0 rating enemyRating enemyDeviation score =
    (let mu = calcMu rating;
         eMu = calcMu enemyRating;
         phi = calcPhi enemyDeviation;
         G = calcG phi
     in \<lparr>mu_b = eMu, phi_b = phi, g_b = G, e_b = calcE mu eMu G, score_b = score\<rparr>)"

definition calcV :: "Outcome_b list \<Rightarrow> float64" where
  "calcV outcomes =
    Fin 1 / foldl (\<lambda>v o'. v + pow2 (g_b o') * e_b o' * (Fin 1 - e_b o')) (Fin 0) outcomes"

definition calcDelta :: "float64 \<Rightarrow> Outcome_b list \<Rightarrow> float64" where
  "calcDelta v outcomes =
    v * foldl (\<lambda>delta o'. delta + g_b o' * (score_b o' - e_b o')) (Fin 0) outcomes"

definition f_0 :: "float64 \<Rightarrow> float64 \<Rightarrow> float64 \<Rightarrow> float64 \<Rightarrow> float64 \<Rightarrow> float64" where
  "f_0 delta phi v a x =
    (let ex = Exp x;
         left = ex * (pow2 delta - pow2 phi - v - ex) / (Fin 2 * pow2 (pow2 phi + v + ex));
         right = (x - a) / pow2 tau_0
     in left - right)"

definition sigmaPrime_0 :: "float64 \<Rightarrow> float64 \<Rightarrow> float64 \<Rightarrow> float64 \<Rightarrow> float64 option" where
  "sigmaPrime_0 sigma delta phi v =
    (let a = Log (pow2 sigma) in
     case (if pow2 delta > pow2 phi + v
           then Some (Log (pow2 delta - pow2 phi - v))
           else sigmaPrime_bracket (f_0 delta phi v a) a tau_0 (Fin 1)) of
       None \<Rightarrow> None
     | Some B \<Rightarrow>
        (case sigmaPrime_secant (f_0 delta phi v a) epsilon_0
                (a, f_0 delta phi v a a, B, f_0 delta phi v a B) of
           None \<Rightarrow> None
         | Some (A, fA, B', fB') \<Rightarrow> Some (Exp (a / Fin 2))))"

definition EvaluatePlayer :: "Evaluation \<Rightarrow> Outcome_b list \<Rightarrow> Evaluation option" where
  "EvaluatePlayer curr' outcomes =
    (let mu = calcMu (Rating_0 curr');
         phi = calcPhi (Deviation_0 curr');
         sigma = Volatility_0 curr';
         v = calcV outcomes;
         delta = calcDelta v outcomes
     in case sigmaPrime_0 sigma delta phi v of
          None \<Rightarrow> None
        | Some vol \<Rightarrow>
           (let curr1 = curr'\<lparr>Volatility_0 := vol\<rparr>;
                phiStar = Sqrt (pow2 phi + pow2 (Volatility_0 curr1));
                curr2 = curr1\<lparr>Deviation_0 := Fin 1 / Sqrt ((Fin 1 / pow2 phiStar) + (Fin 1 / v))\<rparr>;
                sum = foldl (\<lambda>acc o'. acc + g_b o' * (score_b o' - e_b o')) (Fin 0) outcomes;
                curr3 = curr2\<lparr>Rating_0 := mu + pow2 (Deviation_0 curr2) * sum\<rparr>
            in Some \<lparr>Rating_0 = scale_0 * Rating_0 curr3 + Fin 1500,
                     Deviation_0 = Deviation_0 curr3 * scale_0,
                     Volatility_0 = Volatility_0 curr3\<rparr>))"

section \<open>Properties\<close>

subsection \<open>Arithmetic and comparisons with the special values\<close>

lemma not_less_NaN [simp]: "\<not> x < NaN" "\<not> NaN < x"
  by (cases x; simp)+

lemma not_le_NaN [simp]: "\<not> x \<le> NaN" "\<not> NaN \<le> x"
  by (cases x; simp)+

lemma plus_NaN [simp]: "x + NaN = NaN" "NaN + x = NaN"
  by (cases x; simp)+

lemma times_NaN [simp]: "x * NaN = NaN" "NaN * x = NaN"
  by (cases x; simp)+

lemma divide_NaN [simp]: "x / NaN = NaN" "NaN / x = NaN"
  by (cases x; simp)+

lemma minus_NaN [simp]: "x - NaN = NaN" "NaN - x = NaN"
  by (simp_all add: minus_float64_def)

lemma divide_Fin: "y \<noteq> 0 \<Longrightarrow> Fin x / Fin y = Fin (x / y)"
  by simp

subsection \<open>Clamping\<close>

lemma clamp_bounds:
  fixes x lo hi :: float64
  assumes "lo \<le> hi" and "x \<noteq> NaN"
  shows "lo \<le> (if x < lo then lo else if x > hi then hi else x) \<and>
         (if x < lo then lo else if x > hi then hi else x) \<le> hi"
  using assms by (cases x; cases lo; cases hi; simp)

lemma clamp_NaN:
  fixes x lo hi :: float64
  assumes "lo \<le> hi"
  shows "((if x < lo then lo else if x > hi then hi else x) = NaN) = (x = NaN)"
  using assms by (cases x; cases lo; cases hi; simp)

lemma Validate_Mu:
  "Mu (Validate est s) =
    (if Mu s < MinMu est then MinMu est else if Mu s > MaxMu est then MaxMu est else Mu s)"
  by (simp add: Validate_def Let_def)
lemma Validate_Phi:
  "Phi (Validate est s) =
    (if Phi s < MinPhi est then MinPhi est else if Phi s > MaxPhi est then MaxPhi est else Phi s)"
  by (simp add: Validate_def Let_def)
lemma Validate_Sigma:
  "Sigma (Validate est s) =
    (if Sigma s < MinSigma est then MinSigma est else if Sigma s > MaxSigma est then MaxSigma est else Sigma s)"
  by (simp add: Validate_def Let_def)

lemma Validate_bounds:
  assumes "MinMu est \<le> MaxMu est" "MinPhi est \<le> MaxPhi est" "MinSigma est \<le> MaxSigma est"
  shows "(Mu s \<noteq> NaN \<longrightarrow> MinMu est \<le> Mu (Validate est s) \<and> Mu (Validate est s) \<le> MaxMu est) \<and>
   (Phi s \<noteq> NaN \<longrightarrow> MinPhi est \<le> Phi (Validate est s) \<and> Phi (Validate est s) \<le> MaxPhi est) \<and>
   (Sigma s \<noteq> NaN \<longrightarrow> MinSigma est \<le> Sigma (Validate est s) \<and> Sigma (Validate est s) \<le> MaxSigma est)"
  unfolding Validate_Mu Validate_Phi Validate_Sigma
  using clamp_bounds[OF assms(1)] clamp_bounds[OF assms(2)] clamp_bounds[OF assms(3)] by blast


subsection \<open>Weighting on finite arguments\<close>

lemma pow2_Fin: "pow2 (Fin x) = Fin (x * x)"
  by (simp add: pow2_def)

lemma minus_Fin: "Fin x - Fin y = Fin (x - y)"
  by (simp add: minus_float64_def)

lemma g_Fin:
  assumes "Phi_o o' = Fin p"
  shows "g o' = Fin (1 / sqrt (1 + 3 * (p * p) / (pi * pi)))"
proof -
  have pos: "0 < 1 + 3 * (p * p) / (pi * pi)"
    by (rule add_pos_nonneg) simp_all
  then have "sqrt (1 + 3 * (p * p) / (pi * pi)) \<noteq> 0" by simp
  with pos show ?thesis
    using assms by (simp add: g_def pow2_Fin)
qed

lemma g_pos: "0 < 1 / sqrt (1 + 3 * (p * p) / (pi * pi))"
proof -
  have "0 < 1 + 3 * (p * p) / (pi * pi)"
    by (rule add_pos_nonneg) simp_all
  then show ?thesis by simp
qed

lemma e_Fin:
  assumes "Mu_o o' = Fin mo"
  shows "e o' (Fin G) (Fin m) = Fin (1 / (1 + exp (- G * (m - mo))))"
proof -
  have "1 + exp (- G * (m - mo)) \<noteq> 0"
    using exp_gt_zero [of "- G * (m - mo)"] by linarith
  then show ?thesis
    using assms by (simp add: e_def minus_Fin)
qed

lemma e_range: "0 < 1 / (1 + exp (x::real)) \<and> 1 / (1 + exp x) < 1"
proof -
  have p: "0 < exp x" by simp
  have a: "0 < 1 + exp x" using p by linarith
  have "1 / (1 + exp x) < 1" using p a by (simp add: divide_less_eq)
  with a show ?thesis by simp
qed

subsection \<open>A run of the solver that ends without an iteration\<close>

lemma DefaultEstimator_simps:
  "MinPhi DefaultEstimator = Fin (300000 / 1737178)"
  "MaxPhi DefaultEstimator = Fin (3500000 / 1737178)"
  "MinMu DefaultEstimator = Fin (- 14900000 / 1737178)"
  "MaxMu DefaultEstimator = Fin (35000000 / 1737178)"
  "MinSigma DefaultEstimator = Fin (4 / 100)"
  "MaxSigma DefaultEstimator = Fin (8 / 100)"
  "Tau DefaultEstimator = Fin (75 / 100)"
  "Epsilon DefaultEstimator = Fin (1 / 1000000)"
  by (simp_all add: DefaultEstimator_def DefaultConverter_def Rating2Mu_def Deviation2Phi_def minus_Fin)

lemma secant_exit:
  "\<not> Abs (B - A) > eps \<Longrightarrow> sigmaPrime_secant F eps (A, fA, B, fB) = Some (A, fA, B, fB)"
  by (subst sigmaPrime_secant.simps) simp

lemma exp_half_ln: "0 < x \<Longrightarrow> exp (ln (x * x) / 2) = (x::real)"
  by (simp add: ln_mult)

lemma sigmaPrime_example:
  "sigmaPrime DefaultEstimator \<lparr>Mu = Fin 0, Phi = Fin (3/2), Sigma = Fin (3/2)\<rparr> (Fin 3) (Fin (9/2))
     = Some (Fin (3/2))"
proof -
  have "exp (ln (9/4) / 2) = (3/2::real)"
    using exp_half_ln [of "3/2"] by simp
  then show ?thesis
    by (simp add: sigmaPrime_def Let_def pow2_Fin minus_Fin secant_exit Abs_def DefaultEstimator_simps)
qed

lemma Estimate_example:
  "Estimate DefaultEstimator \<lparr>Mu = Fin 0, Phi = Fin (3/2), Sigma = Fin (3/2)\<rparr>
     \<lparr>Mu_o = Fin (ln 2), Phi_o = Fin 0, Score = Fin 1\<rparr> (Fin 1)
   = Some \<lparr>Mu = Fin (3/2), Phi = Fin (3/2), Sigma = Fin (8/100)\<rparr>"
proof -
  let ?o = "\<lparr>Mu_o = Fin (ln 2), Phi_o = Fin 0, Score = Fin 1\<rparr>"
  have G: "g ?o = Fin 1"
    using g_Fin [of ?o 0] by simp
  have E: "e ?o (Fin 1) (Fin 0) = Fin (1/3)"
    using e_Fin [of ?o "ln 2" 1 0] by simp
  have s49: "sqrt (4/9) = (2/3::real)"
    by (rule real_sqrt_unique) (simp_all add: power2_eq_square)
  show ?thesis
    by (simp add: Estimate_def Let_def G E pow2_Fin minus_Fin sigmaPrime_example s49
        Validate_def DefaultEstimator_simps)
qed

lemma pow2_NaN [simp]: "pow2 NaN = NaN"
  by (simp add: pow2_def)

lemma clamp_result:
  fixes x lo hi :: float64
  assumes "lo \<le> hi"
  shows "(if x < lo then lo else if x > hi then hi else x) \<noteq> NaN \<longrightarrow>
         lo \<le> (if x < lo then lo else if x > hi then hi else x) \<and>
         (if x < lo then lo else if x > hi then hi else x) \<le> hi"
  using assms by (cases x; cases lo; cases hi; simp)

lemma Estimate_Some_Validate:
  "Estimate est s o' pf = Some s' \<Longrightarrow> \<exists>s3. s' = Validate est s3"
  by (auto simp add: Estimate_def Let_def split: option.splits)

subsection \<open>The bracket expansion\<close>

lemma f_Fin:
  assumes "Tau est = Fin tau" and "tau \<noteq> 0" and "phi\<^sup>2 + v + exp x \<noteq> 0"
  shows "f est (Fin delta) (Fin phi) (Fin v) (Fin a) (Fin x) =
    Fin (exp x * (delta\<^sup>2 - phi\<^sup>2 - v - exp x) / (2 * (phi\<^sup>2 + v + exp x)\<^sup>2) - (x - a) / tau\<^sup>2)"
proof -
  have t: "phi * phi + v + exp x \<noteq> 0"
    using assms(3) by (simp add: power2_eq_square)
  have d: "delta * delta - (phi * phi + v + exp x) = delta * delta - phi * phi - v - exp x"
    by simp
  show ?thesis
    using assms(1,2) t by (simp add: f_def Let_def pow2_Fin minus_Fin power2_eq_square d)
qed

lemma first_lower:
  fixes p ex d :: real
  assumes "0 < p" and "0 < ex"
  shows "- 1 / 2 < ex * (d * d - (p + ex)) / (2 * ((p + ex) * (p + ex)))"
proof -
  let ?t = "p + ex"
  have t: "0 < ?t" using assms by linarith
  have "0 \<le> ex * (d * d)" using assms(2) by simp
  moreover have "0 < ?t * p" using t assms(1) by simp
  moreover have "ex * (d * d - ?t) + ?t * ?t = ex * (d * d) + ?t * p"
    by (simp add: algebra_simps)
  ultimately have "- (?t * ?t) < ex * (d * d - ?t)" by linarith
  moreover have "0 < 2 * (?t * ?t)" using t by simp
  ultimately show ?thesis
    by (simp add: pos_less_divide_eq)
qed

lemma f_bracket_pos:
  assumes "Tau est = Fin tau" and "0 < tau" and "0 < phi * phi + v" and "tau / 2 \<le> real n"
  shows "Fin 0 < f est (Fin delta) (Fin phi) (Fin v) (Fin a) (Fin (a - real n * tau))"
proof -
  let ?x = "a - real n * tau"
  let ?T = "exp ?x * (delta * delta - (phi * phi + v + exp ?x)) /
      (2 * ((phi * phi + v + exp ?x) * (phi * phi + v + exp ?x)))"
  have "0 < phi * phi + v + exp ?x"
    using assms(3) exp_gt_zero [of ?x] by linarith
  then have nz: "phi\<^sup>2 + v + exp ?x \<noteq> 0"
    by (simp add: power2_eq_square)
  have lo: "- 1 / 2 < ?T"
    using first_lower [OF assms(3) exp_gt_zero, of ?x delta] .
  have r1: "(?x - a) / tau\<^sup>2 = - (real n / tau)"
    using assms(2) by (simp add: power2_eq_square field_simps)
  have r2: "1 / 2 \<le> real n / tau"
    using assms(2,4) by (simp add: field_simps)
  have pos: "0 < ?T - (?x - a) / tau\<^sup>2"
    using lo r1 r2 by linarith
  have eq: "delta\<^sup>2 - phi\<^sup>2 - v - exp ?x = delta * delta - (phi * phi + v + exp ?x)"
    by (simp add: power2_eq_square)
  have eq2: "(phi\<^sup>2 + v + exp ?x)\<^sup>2 = (phi * phi + v + exp ?x) * (phi * phi + v + exp ?x)"
    by (simp add: power2_eq_square)
  have "f est (Fin delta) (Fin phi) (Fin v) (Fin a) (Fin ?x) = Fin (?T - (?x - a) / tau\<^sup>2)"
    using f_Fin [OF assms(1) _ nz, of delta a] assms(2) by (simp only: eq eq2)
  then show ?thesis
    using pos by simp
qed

lemma bracket_steps:
  assumes "Fin 0 < F (Fin a - Fin (real N) * Fin tau)" and "k \<le> N"
  shows "\<exists>n. k \<le> n \<and> n \<le> N \<and>
      sigmaPrime_bracket F (Fin a) (Fin tau) (Fin (real k)) = Some (Fin a - Fin (real n) * Fin tau) \<and>
      Fin 0 < F (Fin a - Fin (real n) * Fin tau) \<and>
      (\<forall>m. k \<le> m \<and> m < n \<longrightarrow> \<not> Fin 0 < F (Fin a - Fin (real m) * Fin tau))"
  using assms(2)
proof (induction "N - k" arbitrary: k)
  case 0
  then have "k = N" by simp
  then show ?case
    using assms(1) by (subst sigmaPrime_bracket.simps) auto
next
  case (Suc d)
  show ?case
  proof (cases "Fin 0 < F (Fin a - Fin (real k) * Fin tau)")
    case True
    then show ?thesis
      using Suc.prems by (subst sigmaPrime_bracket.simps) auto
  next
    case False
    have "d = N - Suc k" and "Suc k \<le> N"
      using Suc.hyps(2) by simp_all
    from Suc.hyps(1) [OF this] obtain n where n: "Suc k \<le> n" "n \<le> N"
      "sigmaPrime_bracket F (Fin a) (Fin tau) (Fin (real (Suc k))) = Some (Fin a - Fin (real n) * Fin tau)"
      "Fin 0 < F (Fin a - Fin (real n) * Fin tau)"
      "\<forall>m. Suc k \<le> m \<and> m < n \<longrightarrow> \<not> Fin 0 < F (Fin a - Fin (real m) * Fin tau)"
      by blast
    have step: "sigmaPrime_bracket F (Fin a) (Fin tau) (Fin (real k)) =
        sigmaPrime_bracket F (Fin a) (Fin tau) (Fin (real (Suc k)))"
      using False by (subst sigmaPrime_bracket.simps) (simp add: add.commute)
    have "\<forall>m. k \<le> m \<and> m < n \<longrightarrow> \<not> Fin 0 < F (Fin a - Fin (real m) * Fin tau)"
    proof (intro allI impI)
      fix m assume "k \<le> m \<and> m < n"
      then have "m = k \<or> (Suc k \<le> m \<and> m < n)" by auto
      then show "\<not> Fin 0 < F (Fin a - Fin (real m) * Fin tau)"
        using False n(5) by blast
    qed
    then show ?thesis
      using n step by (intro exI [of _ n]) auto
  qed
qed

lemma bracket_Some:
  assumes "sigmaPrime_bracket F a tau k = Some y"
  shows "\<exists>k'. Fin 0 < F (a - k' * tau) \<and> y = a - k' * tau"
  by (rule sigmaPrime_bracket.raw_induct
      [where P = "\<lambda>F a tau k y. \<exists>k'. Fin 0 < F (a - k' * tau) \<and> y = a - k' * tau", OF _ assms])
    (auto split: if_splits)

lemma bracket_diverges:
  assumes "\<forall>k. \<not> Fin 0 < F (a - k * tau)"
  shows "sigmaPrime_bracket F a tau k = None"
proof (cases "sigmaPrime_bracket F a tau k")
  case None
  then show ?thesis .
next
  case (Some y)
  then show ?thesis
    using bracket_Some [OF Some] assms by blast
qed

lemma NInf_minus: "NInf - k * Fin t = NInf \<or> NInf - k * Fin t = NaN"
  by (cases k) (simp_all add: minus_float64_def inff_def)

lemma f_NInf: "x = NInf \<or> x = NaN \<Longrightarrow> f est delta phi v NInf x = NaN"
  by (auto simp add: f_def Let_def minus_float64_def)

subsection \<open>The refinement loop and the update of mu\<close>

lemma secant_Some:
  assumes "sigmaPrime_secant F eps st = Some y"
  shows "\<not> eps < Abs (fst (snd (snd y)) - fst y)"
  by (rule sigmaPrime_secant.raw_induct
      [where P = "\<lambda>F eps st y. \<not> eps < Abs (fst (snd (snd y)) - fst y)", OF _ assms])
    (auto simp add: Let_def split: if_splits prod.splits)

lemma not_less_iff_le: "x \<noteq> NaN \<Longrightarrow> y \<noteq> NaN \<Longrightarrow> (\<not> y < x) = (x \<le> (y::float64))"
  by (cases x; cases y) auto

lemma sqrt_sum_gt:
  fixes p sg :: real
  assumes "0 < sg"
  shows "p < sqrt (p * p + sg * sg)"
proof -
  have "p * p < p * p + sg * sg" using assms by simp
  then have "sqrt (p * p) < sqrt (p * p + sg * sg)" by (rule real_sqrt_less_mono)
  moreover have "p \<le> sqrt (p * p)" by simp
  ultimately show ?thesis by linarith
qed

lemma bracket_ends:
  assumes "Tau est = Fin tau" and "0 < tau" and "0 < phi * phi + v"
  shows "\<exists>n. 1 \<le> n \<and> real n < tau / 2 + 1 \<and>
      sigmaPrime_bracket (f est (Fin delta) (Fin phi) (Fin v) (Fin a)) (Fin a) (Tau est) (Fin 1)
        = Some (Fin (a - real n * tau)) \<and>
      Fin 0 < f est (Fin delta) (Fin phi) (Fin v) (Fin a) (Fin (a - real n * tau)) \<and>
      (\<forall>m. 1 \<le> m \<and> m < n \<longrightarrow>
         \<not> Fin 0 < f est (Fin delta) (Fin phi) (Fin v) (Fin a) (Fin (a - real m * tau)))"
proof -
  let ?F = "f est (Fin delta) (Fin phi) (Fin v) (Fin a)"
  define N where "N = nat \<lceil>tau / 2\<rceil>"
  have "1 \<le> \<lceil>tau / 2\<rceil>"
    using assms(2) by (simp add: one_le_ceiling)
  then have N1: "1 \<le> N"
    unfolding N_def by linarith
  have NT: "tau / 2 \<le> real N"
    using assms(2) by (simp add: N_def)
  have arg: "Fin a - Fin (real m) * Fin tau = Fin (a - real m * tau)" for m
    by (simp add: minus_Fin)
  have "Fin 0 < ?F (Fin a - Fin (real N) * Fin tau)"
    unfolding arg using f_bracket_pos [OF assms NT] .
  from bracket_steps [where F = ?F and a = a and tau = tau and N = N and k = 1, OF this N1] obtain n where n: "1 \<le> n" "n \<le> N"
    "sigmaPrime_bracket ?F (Fin a) (Fin tau) (Fin (real (1::nat))) = Some (Fin a - Fin (real n) * Fin tau)"
    "Fin 0 < ?F (Fin a - Fin (real n) * Fin tau)"
    "\<forall>m. 1 \<le> m \<and> m < n \<longrightarrow> \<not> Fin 0 < ?F (Fin a - Fin (real m) * Fin tau)"
    by blast
  have "real n < tau / 2 + 1"
  proof (cases "n = 1")
    case True
    then show ?thesis using assms(2) by simp
  next
    case False
    then have m: "1 \<le> n - 1 \<and> n - 1 < n" using n(1) by simp
    have "\<not> tau / 2 \<le> real (n - 1)"
      using f_bracket_pos [OF assms, of "n - 1" delta a] n(5) m unfolding arg by blast
    then show ?thesis using n(1) by (simp add: of_nat_diff)
  qed
  then show ?thesis
    using n unfolding arg assms(1) by (intro exI [of _ n]) simp
qed

lemma sigmaPrime_coarse:
  assumes "Tau est = Fin (3/4)" and "Epsilon est = Fin 1" and "delta * delta \<le> 9 + 9/2"
  shows "sigmaPrime est \<lparr>Mu = m, Phi = Fin 3, Sigma = Fin 1\<rparr> (Fin delta) (Fin (9/2)) = Some (Fin 1)"
proof -
  from bracket_ends [OF assms(1), of 3 "9/2" delta 0] obtain n where n: "1 \<le> n" "real n < 3/4/2 + 1"
    "sigmaPrime_bracket (f est (Fin delta) (Fin 3) (Fin (9/2)) (Fin 0)) (Fin 0)
       (Tau est) (Fin 1) = Some (Fin (0 - real n * (3/4)))"
    by auto
  from n(1,2) have "n = 1" by simp
  with n(3) have br: "sigmaPrime_bracket (f est (Fin delta) (Fin 3) (Fin (9/2)) (Fin 0)) (Fin 0)
       (Tau est) (Fin 1) = Some (Fin (- 3/4))"
    by simp
  have no: "\<not> 27 < delta * delta * 2"
    using assms(3) by simp
  show ?thesis
    using no by (simp add: sigmaPrime_def Let_def pow2_Fin minus_Fin br secant_exit Abs_def assms(2))
qed

lemma Estimate_win_loss_example:
  "map_option Mu (Estimate (DefaultEstimator\<lparr>Epsilon := Fin 1\<rparr>) \<lparr>Mu = Fin 0, Phi = Fin 3, Sigma = Fin 1\<rparr>
     \<lparr>Mu_o = Fin (ln 2), Phi_o = Fin 0, Score = Fin 1\<rparr> (Fin 1)) = Some (Fin (60/29))"
  "map_option Mu (Estimate (DefaultEstimator\<lparr>Epsilon := Fin 1\<rparr>) \<lparr>Mu = Fin 0, Phi = Fin 3, Sigma = Fin 1\<rparr>
     \<lparr>Mu_o = Fin (ln 2), Phi_o = Fin 0, Score = Fin 0\<rparr> (Fin 1)) = Some (Fin (- 30/29))"
proof -
  let ?est = "DefaultEstimator\<lparr>Epsilon := Fin 1\<rparr>"
  have G: "g \<lparr>Mu_o = Fin (ln 2), Phi_o = Fin 0, Score = sc\<rparr> = Fin 1" for sc
    using g_Fin [of "\<lparr>Mu_o = Fin (ln 2), Phi_o = Fin 0, Score = sc\<rparr>" 0] by simp
  have E: "e \<lparr>Mu_o = Fin (ln 2), Phi_o = Fin 0, Score = sc\<rparr> (Fin 1) (Fin 0) = Fin (1/3)" for sc
    using e_Fin [of "\<lparr>Mu_o = Fin (ln 2), Phi_o = Fin 0, Score = sc\<rparr>" "ln 2" 1 0] by simp
  have t: "Tau ?est = Fin (3/4)" "Epsilon ?est = Fin 1"
    by (simp_all add: DefaultEstimator_simps)
  have sp1: "sigmaPrime ?est \<lparr>Mu = Fin 0, Phi = Fin 3, Sigma = Fin 1\<rparr> (Fin 3) (Fin (9/2)) = Some (Fin 1)"
    by (rule sigmaPrime_coarse [OF t]) simp
  have sp0: "sigmaPrime ?est \<lparr>Mu = Fin 0, Phi = Fin 3, Sigma = Fin 1\<rparr> (Fin (- (3/2))) (Fin (9/2)) = Some (Fin 1)"
    by (rule sigmaPrime_coarse [OF t]) simp
  have sq: "sqrt (29/90) \<noteq> 0" by simp
  have p: "1 / sqrt (29/90) * (1 / sqrt (29/90)) = (90/29::real)"
    by (simp add: field_simps)
  show "map_option Mu (Estimate ?est \<lparr>Mu = Fin 0, Phi = Fin 3, Sigma = Fin 1\<rparr>
     \<lparr>Mu_o = Fin (ln 2), Phi_o = Fin 0, Score = Fin 1\<rparr> (Fin 1)) = Some (Fin (60/29))"
    by (simp add: Estimate_def Let_def G E pow2_Fin minus_Fin sp1 Validate_Mu p DefaultEstimator_simps)
  show "map_option Mu (Estimate ?est \<lparr>Mu = Fin 0, Phi = Fin 3, Sigma = Fin 1\<rparr>
     \<lparr>Mu_o = Fin (ln 2), Phi_o = Fin 0, Score = Fin 0\<rparr> (Fin 1)) = Some (Fin (- 30/29))"
    by (simp add: Estimate_def Let_def G E pow2_Fin minus_Fin sp0 Validate_Mu p DefaultEstimator_simps)
qed

lemma pow2_cases: "pow2 X = NaN \<or> pow2 X = PInf \<or> (\<exists>r. pow2 X = Fin r \<and> 0 \<le> r)"
  by (cases X) (simp_all add: pow2_def inff_def)

lemma shift_up:
  assumes "0 < c"
  shows "Fin m + pow2 X * Fin c = NaN \<or> Fin m \<le> Fin m + pow2 X * Fin c"
  using pow2_cases [of X] assms by (auto simp add: inff_def)

lemma shift_down:
  assumes "c < 0"
  shows "Fin m + pow2 X * Fin c = NaN \<or> Fin m + pow2 X * Fin c \<le> Fin m"
  using pow2_cases [of X] assms by (auto simp add: inff_def mult_nonneg_nonpos)

lemma clamp_keeps_ge:
  fixes x y lo hi :: float64
  assumes "lo \<le> y" and "y \<le> hi" and "x = NaN \<or> y \<le> x"
  shows "(if x < lo then lo else if x > hi then hi else x) = NaN \<or>
         y \<le> (if x < lo then lo else if x > hi then hi else x)"
  using assms by (cases x; cases y; cases lo; cases hi) auto

lemma clamp_keeps_le:
  fixes x y lo hi :: float64
  assumes "lo \<le> y" and "y \<le> hi" and "x = NaN \<or> x \<le> y"
  shows "(if x < lo then lo else if x > hi then hi else x) = NaN \<or>
         (if x < lo then lo else if x > hi then hi else x) \<le> y"
  using assms by (cases x; cases y; cases lo; cases hi) auto

lemma Estimate_Mu:
  assumes "Mu s = Fin m" and "Mu_o o' = Fin mo" and "Phi_o o' = Fin po" and "Score o' = Fin sc"
    and "Estimate est s o' pf = Some s'"
    and G: "G = 1 / sqrt (1 + 3 * (po * po) / (pi * pi))"
    and E: "E = 1 / (1 + exp (- G * (m - mo)))"
  shows "\<exists>X. Mu s' = (if Fin m + pow2 X * Fin (G * (sc - E)) < MinMu est then MinMu est
                else if Fin m + pow2 X * Fin (G * (sc - E)) > MaxMu est then MaxMu est
                else Fin m + pow2 X * Fin (G * (sc - E)))"
proof -
  define V where "V = Fin 1 / (pow2 (g o') * e o' (g o') (Mu s) * (Fin 1 - e o' (g o') (Mu s)))"
  define Delta where "Delta = V * g o' * (Score o' - e o' (g o') (Mu s))"
  define P where "P = (\<lambda>sg. Fin 1 / Sqrt (Fin 1 / pow2 (Sqrt (pow2 (Phi s) + pow2 sg * pf)) + Fin 1 / V))"
  have g: "g o' = Fin G"
    using g_Fin [OF assms(3)] G by simp
  have Gpos: "0 < G"
    unfolding G by (rule g_pos)
  have e: "e o' (Fin G) (Fin m) = Fin E"
    using e_Fin [OF assms(2)] E by simp
  have Er: "0 < E \<and> E < 1"
    unfolding E by (rule e_range)
  have D: "G * G * E * (1 - E) \<noteq> 0"
    using Gpos Er by simp
  have V: "V = Fin (1 / (G * G * E * (1 - E)))"
    using D by (simp add: V_def g e assms(1) pow2_Fin minus_Fin)
  have "Delta = Fin (1 / (G * G * E * (1 - E)) * G * (sc - E))"
    by (simp add: Delta_def V g e assms(1,4) minus_Fin)
  moreover have "1 / (G * G * E * (1 - E)) * G * (sc - E) / (1 / (G * G * E * (1 - E))) = G * (sc - E)"
    using D by simp
  ultimately have dv: "Delta / V = Fin (G * (sc - E))"
    using D by (simp add: V)
  have est: "Estimate est s o' pf =
      (case sigmaPrime est s Delta V of None \<Rightarrow> None
       | Some sg \<Rightarrow> Some (Validate est (s\<lparr>Sigma := sg, Phi := P sg,
            Mu := Mu s + pow2 (P sg) * (Delta / V)\<rparr>)))"
    by (simp add: Estimate_def Let_def V_def Delta_def P_def split: option.split)
  from assms(5) obtain sg where
    "s' = Validate est (s\<lparr>Sigma := sg, Phi := P sg, Mu := Mu s + pow2 (P sg) * (Delta / V)\<rparr>)"
    unfolding est by (auto split: option.splits)
  then have "Mu s' = (if Fin m + pow2 (P sg) * Fin (G * (sc - E)) < MinMu est then MinMu est
                else if Fin m + pow2 (P sg) * Fin (G * (sc - E)) > MaxMu est then MaxMu est
                else Fin m + pow2 (P sg) * Fin (G * (sc - E)))"
    by (simp add: Validate_Mu dv assms(1))
  then show ?thesis by blast
qed

subsection \<open>The first revision\<close>

lemma sigmaPrime_0_anchor:
  assumes "sigmaPrime_0 sigma delta phi v = Some r"
  shows "r = Exp (Log (pow2 sigma) / Fin 2)"
  using assms by (auto simp add: sigmaPrime_0_def Let_def split: option.splits if_splits)

lemma EvaluatePlayer_Volatility:
  assumes "EvaluatePlayer curr' outcomes = Some ev"
  shows "Volatility_0 ev = Exp (Log (pow2 (Volatility_0 curr')) / Fin 2)"
  using assms sigmaPrime_0_anchor
  by (auto simp add: EvaluatePlayer_def Let_def split: option.splits)

subsection \<open>The claims\<close>



text \<open>
  C2.  Boundedness, as the code has it: when \<open>Estimate\<close> returns and each pair of bounds
  is ordered, every field of the updated strength that is not NaN lies within its bounds,
  ends included.  A field that is NaN is outside them: with a negative elapsed fraction
  \<open>math.Sqrt\<close> yields NaN for \<open>phiStar\<close>, and phi and mu come back as NaN.
\<close>

theorem Estimate_bounded:
  assumes "Estimate est s o' periodFraction = Some s'"
    and "MinMu est \<le> MaxMu est" and "MinPhi est \<le> MaxPhi est"
    and "MinSigma est \<le> MaxSigma est"
  shows "(Mu s' \<noteq> NaN \<longrightarrow> MinMu est \<le> Mu s' \<and> Mu s' \<le> MaxMu est) \<and>
         (Phi s' \<noteq> NaN \<longrightarrow> MinPhi est \<le> Phi s' \<and> Phi s' \<le> MaxPhi est) \<and>
         (Sigma s' \<noteq> NaN \<longrightarrow> MinSigma est \<le> Sigma s' \<and> Sigma s' \<le> MaxSigma est)"
proof -
  from assms(1) obtain s3 where s': "s' = Validate est s3"
    using Estimate_Some_Validate by blast
  show ?thesis
    unfolding s' Validate_Mu Validate_Phi Validate_Sigma
    using clamp_result [OF assms(2)] clamp_result [OF assms(3)] clamp_result [OF assms(4)]
    by blast
qed

theorem Estimate_bounded_witness:
  "Estimate DefaultEstimator \<lparr>Mu = Fin 0, Phi = Fin (3/2), Sigma = Fin (3/2)\<rparr>
     \<lparr>Mu_o = Fin (ln 2), Phi_o = Fin 0, Score = Fin 1\<rparr> (Fin 1)
     = Some \<lparr>Mu = Fin (3/2), Phi = Fin (3/2), Sigma = Fin (8/100)\<rparr> \<and>
   MinMu DefaultEstimator \<le> Fin (3/2) \<and> Fin (3/2) \<le> MaxMu DefaultEstimator \<and>
   MinPhi DefaultEstimator \<le> Fin (3/2) \<and> Fin (3/2) \<le> MaxPhi DefaultEstimator \<and>
   MinSigma DefaultEstimator \<le> Fin (8/100) \<and> Fin (8/100) \<le> MaxSigma DefaultEstimator"
  using Estimate_bounded [OF Estimate_example]
  by (simp add: Estimate_example DefaultEstimator_simps)

theorem Estimate_bounded_counterexample:
  "Estimate DefaultEstimator \<lparr>Mu = Fin 0, Phi = Fin (3/2), Sigma = Fin (3/2)\<rparr>
     \<lparr>Mu_o = Fin (ln 2), Phi_o = Fin 0, Score = Fin 1\<rparr> (Fin (- 2))
     = Some \<lparr>Mu = NaN, Phi = NaN, Sigma = Fin (8/100)\<rparr> \<and>
   \<not> (MinMu DefaultEstimator \<le> NaN \<and> NaN \<le> MaxMu DefaultEstimator) \<and>
   \<not> (MinPhi DefaultEstimator \<le> NaN \<and> NaN \<le> MaxPhi DefaultEstimator) \<and>
   MinMu DefaultEstimator \<le> MaxMu DefaultEstimator \<and>
   MinPhi DefaultEstimator \<le> MaxPhi DefaultEstimator \<and>
   MinSigma DefaultEstimator \<le> MaxSigma DefaultEstimator"
proof -
  let ?o = "\<lparr>Mu_o = Fin (ln 2), Phi_o = Fin 0, Score = Fin 1\<rparr>"
  have G: "g ?o = Fin 1"
    using g_Fin [of ?o 0] by simp
  have E: "e ?o (Fin 1) (Fin 0) = Fin (1/3)"
    using e_Fin [of ?o "ln 2" 1 0] by simp
  show ?thesis
    by (simp add: Estimate_def Let_def G E pow2_Fin minus_Fin sigmaPrime_example
        Validate_def DefaultEstimator_simps)
qed

text \<open>
  C3.  The reference scenario as one batch, in the revision that has a batch entry point:
  \<open>sigmaPrime\<close> of that revision returns \<open>exp(a / 2)\<close> for the anchor \<open>a = log(sigma\<^sup>2)\<close>,
  so when \<open>EvaluatePlayer\<close> returns on the reference input its volatility is the
  input's \<open>0.06\<close>, which is further than \<open>10\<^sup>-\<^sup>6\<close> (relative) from \<open>0.05999\<close>.
\<close>

theorem EvaluatePlayer_reference:
  "(EvaluatePlayer \<lparr>Rating_0 = Fin 1500, Deviation_0 = Fin 200, Volatility_0 = Fin (6/100)\<rparr>
      [NewOutcome_0 (Fin 1500) (Fin 1400) (Fin 30) (Fin 1),
       NewOutcome_0 (Fin 1500) (Fin 1550) (Fin 100) (Fin 0),
       NewOutcome_0 (Fin 1500) (Fin 1700) (Fin 300) (Fin 0)] = None \<or>
    map_option Volatility_0
     (EvaluatePlayer \<lparr>Rating_0 = Fin 1500, Deviation_0 = Fin 200, Volatility_0 = Fin (6/100)\<rparr>
      [NewOutcome_0 (Fin 1500) (Fin 1400) (Fin 30) (Fin 1),
       NewOutcome_0 (Fin 1500) (Fin 1550) (Fin 100) (Fin 0),
       NewOutcome_0 (Fin 1500) (Fin 1700) (Fin 300) (Fin 0)]) = Some (Fin (6/100))) \<and>
   \<bar>6/100 - 5999/100000\<bar> > (1/1000000) * (5999/100000 :: real)"
proof -
  let ?r = "EvaluatePlayer \<lparr>Rating_0 = Fin 1500, Deviation_0 = Fin 200, Volatility_0 = Fin (6/100)\<rparr>
      [NewOutcome_0 (Fin 1500) (Fin 1400) (Fin 30) (Fin 1),
       NewOutcome_0 (Fin 1500) (Fin 1550) (Fin 100) (Fin 0),
       NewOutcome_0 (Fin 1500) (Fin 1700) (Fin 300) (Fin 0)]"
  have x: "exp (ln (9/2500) / 2) = (6/100::real)"
    using exp_half_ln [of "6/100"] by simp
  have "?r = None \<or> map_option Volatility_0 ?r = Some (Fin (6/100))"
  proof (cases ?r)
    case None
    then show ?thesis by simp
  next
    case (Some ev)
    from EvaluatePlayer_Volatility [OF Some] have "Volatility_0 ev = Fin (6/100)"
      using x by (simp add: pow2_Fin)
    with Some show ?thesis by simp
  qed
  then show ?thesis by simp
qed











text \<open>
  C9.  A field of the strength that is NaN when \<open>Validate\<close> runs stays NaN: both
  comparisons with its bounds are false, so the field is not clamped and does not lie
  within its bounds afterwards.
\<close>

theorem Validate_NaN:
  "\<not> NaN < lo \<and> \<not> NaN > hi \<and>
   (Mu s = NaN \<longrightarrow> Mu (Validate est s) = NaN \<and>
      \<not> (MinMu est \<le> Mu (Validate est s) \<and> Mu (Validate est s) \<le> MaxMu est)) \<and>
   (Phi s = NaN \<longrightarrow> Phi (Validate est s) = NaN \<and>
      \<not> (MinPhi est \<le> Phi (Validate est s) \<and> Phi (Validate est s) \<le> MaxPhi est)) \<and>
   (Sigma s = NaN \<longrightarrow> Sigma (Validate est s) = NaN \<and>
      \<not> (MinSigma est \<le> Sigma (Validate est s) \<and> Sigma (Validate est s) \<le> MaxSigma est))"
  by (simp add: Validate_Mu Validate_Phi Validate_Sigma)


theorem Validate_NaN_witness:
  "Validate \<lparr>Duration = 0, MinPhi = Fin (1/10), MaxPhi = Fin 2, MinMu = Fin (- 8), MaxMu = Fin 20,
      MinSigma = Fin (1/25), MaxSigma = Fin (2/25), Tau = Fin (1/2), Epsilon = Fin (1/1000000)\<rparr>
     \<lparr>Mu = NaN, Phi = NaN, Sigma = NaN\<rparr> = \<lparr>Mu = NaN, Phi = NaN, Sigma = NaN\<rparr>"
  using Validate_NaN [where s = "\<lparr>Mu = NaN, Phi = NaN, Sigma = NaN\<rparr>" and est =
    "\<lparr>Duration = 0, MinPhi = Fin (1/10), MaxPhi = Fin 2, MinMu = Fin (- 8), MaxMu = Fin 20,
      MinSigma = Fin (1/25), MaxSigma = Fin (2/25), Tau = Fin (1/2), Epsilon = Fin (1/1000000)\<rparr>"]
  by (simp add: Validate_def Let_def)




end
